theory Spec2Isabelle
  imports Main
begin

section \<open>The vocabulary of the provisioning toolchain that the stack uses\<close>

text \<open>
  The repository holds one authored unit, the class \<open>CdkS3WebsiteStack\<close> of
  \<open>lib/cdk-s3-website-stack.ts\<close>, and a walkthrough that shows an earlier listing of the
  same class. Everything the constructor calls (\<open>cdk.Stack\<close>, \<open>s3.Bucket\<close>,
  \<open>s3Deploy.BucketDeployment\<close>, \<open>cdk.CfnOutput\<close>) belongs to the external library. The
  types below carry exactly the members that the two listings name.
\<close>

text \<open>\<open>cdk.RemovalPolicy\<close>. The listings name \<open>DESTROY\<close> only ("Remove the bucket on stack
  deletion"); \<open>RETAIN\<close> stands for the library's other choice.\<close>

datatype RemovalPolicy = DESTROY | RETAIN

text \<open>The two ways in which a bucket can be made publicly readable.\<close>

datatype AccessMode = ViaAcl | ViaBucketPolicy

text \<open>Modelled from the spec: the class \<open>s3.BlockPublicAccess\<close> belongs to the external
  library and is missing from the repository's sources. The spec calls it the
  public-access-block policy, which may or may not block "the access mode being granted";
  the stack's own comment on \<open>BLOCK_ACLS\<close> reads "Allows public access but blocks
  ACLs". One flag per access mode.\<close>

record BlockPublicAccess =
  blockPublicAcls :: bool
  blockPublicPolicy :: bool

definition BLOCK_ACLS :: BlockPublicAccess where
  "BLOCK_ACLS = \<lparr>blockPublicAcls = True, blockPublicPolicy = False\<rparr>"

fun blocks :: "BlockPublicAccess \<Rightarrow> AccessMode \<Rightarrow> bool" where
  "blocks b ViaAcl = blockPublicAcls b"
| "blocks b ViaBucketPolicy = blockPublicPolicy b"

text \<open>The properties object handed to \<open>new s3.Bucket\<close>. Every member is optional in the
  library; \<open>None\<close> is a member that the object literal leaves out.\<close>

record BucketProps =
  websiteIndexDocument :: "string option"
  publicReadAccess :: "bool option"
  removalPolicy :: "RemovalPolicy option"
  blockPublicAccess :: "BlockPublicAccess option"
  autoDeleteObjects :: "bool option"

text \<open>A reference to a construct: the stack that owns it and its position among that stack's
  declarations. It plays the part of the object reference held in \<open>websiteBucket\<close>.\<close>

datatype Ref = Ref (owner: string) (slot: nat)

text \<open>\<open>s3Deploy.Source.asset(path)\<close>: a local directory, named by its path.\<close>

datatype Source = Source_asset string

record BucketDeploymentProps =
  sources :: "Source list"
  destinationBucket :: Ref

text \<open>A string handed to the library is either written out in the code or is an attribute
  that the library derives later; \<open>bucketWebsiteUrl\<close> is the one attribute the stack reads.\<close>

datatype StringValue = Literal string | bucketWebsiteUrl Ref

record CfnOutputProps =
  output_value :: StringValue

datatype Construct =
    Bucket string BucketProps
  | BucketDeployment string BucketDeploymentProps
  | CfnOutput string CfnOutputProps

text \<open>The stack under construction: what \<open>super(scope, id, props)\<close> received, and the
  declarations made with \<open>this\<close> as their scope, in the order of their creation.\<close>

record ('s, 'p) Stack =
  stack_scope :: 's
  stack_id :: string
  stack_props :: "'p option"
  children :: "Construct list"

text \<open>The one failure that the spec documents: the library's rejection of a configuration.\<close>

datatype error = ConfigurationValidation

text \<open>Modelled from the spec: the library's constructors are missing from the repository's
  sources. Each one declares a record in the stack that is its scope ("declared once, applied
  by external tooling") and hands back the reference to it.\<close>

definition new_Stack :: "'s \<Rightarrow> string \<Rightarrow> 'p option \<Rightarrow> ('s, 'p) Stack" where
  "new_Stack scope id' props =
     \<lparr>stack_scope = scope, stack_id = id', stack_props = props, children = []\<rparr>"

definition add_child :: "('s, 'p) Stack \<Rightarrow> Construct \<Rightarrow> Ref \<times> ('s, 'p) Stack" where
  "add_child this c =
     (Ref (stack_id this) (length (children this)), this\<lparr>children := children this @ [c]\<rparr>)"

text \<open>Modelled from the spec: how the library confers the public read that
  \<open>publicReadAccess\<close> asks for is missing from the repository's sources. The grant is a
  statement of the bucket's policy, which is why a policy that blocks ACLs only "allows
  public access".\<close>

definition public_read_grant :: "BucketProps \<Rightarrow> AccessMode option" where
  "public_read_grant props =
     (if publicReadAccess props = Some True then Some ViaBucketPolicy else None)"

text \<open>Modelled from the spec: the validation inside the library's bucket constructor is
  missing from the repository's sources. The spec: "public access requested while the
  corresponding access-block policy disallows it". The walkthrough records the rejection for
  the earlier listing, which leaves \<open>blockPublicAccess\<close> out: "Cannot use 'publicReadAccess' property on a bucket without
  allowing bucket-level public access through 'blockPublicAccess' property."\<close>

definition disallows :: "BlockPublicAccess option \<Rightarrow> AccessMode \<Rightarrow> bool" where
  "disallows policy m = (case policy of None \<Rightarrow> True | Some b \<Rightarrow> blocks b m)"

definition inconsistent :: "BucketProps \<Rightarrow> bool" where
  "inconsistent props =
     (case public_read_grant props of
        None \<Rightarrow> False
      | Some m \<Rightarrow> disallows (blockPublicAccess props) m)"

definition new_Bucket ::
  "('s, 'p) Stack \<Rightarrow> string \<Rightarrow> BucketProps \<Rightarrow> error + (Ref \<times> ('s, 'p) Stack)" where
  "new_Bucket this id' props =
     (if inconsistent props then Inl ConfigurationValidation
      else Inr (add_child this (Bucket id' props)))"

definition new_BucketDeployment ::
  "('s, 'p) Stack \<Rightarrow> string \<Rightarrow> BucketDeploymentProps \<Rightarrow> error + (Ref \<times> ('s, 'p) Stack)" where
  "new_BucketDeployment this id' props = Inr (add_child this (BucketDeployment id' props))"

definition new_CfnOutput ::
  "('s, 'p) Stack \<Rightarrow> string \<Rightarrow> CfnOutputProps \<Rightarrow> error + (Ref \<times> ('s, 'p) Stack)" where
  "new_CfnOutput this id' props = Inr (add_child this (CfnOutput id' props))"

section \<open>The stack\<close>

text \<open>\<open>lib/cdk-s3-website-stack.ts\<close>, the constructor of \<open>CdkS3WebsiteStack\<close>. A library
  call that throws ends the constructor with that error.\<close>

definition websiteBucketProps :: BucketProps where
  "websiteBucketProps =
     \<lparr>websiteIndexDocument = Some ''index.html'',
      publicReadAccess = Some True,
      removalPolicy = Some DESTROY,
      blockPublicAccess = Some BLOCK_ACLS,
      autoDeleteObjects = None\<rparr>"

definition CdkS3WebsiteStack :: "'s \<Rightarrow> string \<Rightarrow> 'p option \<Rightarrow> error + ('s, 'p) Stack" where
  "CdkS3WebsiteStack scope id' props =
     (let this = new_Stack scope id' props in
      case new_Bucket this ''SriSriWebsiteBucket'' websiteBucketProps of
        Inl e \<Rightarrow> Inl e
      | Inr (websiteBucket, this) \<Rightarrow>
     (case new_BucketDeployment this ''DeployWebsite''
             \<lparr>sources = [Source_asset ''./website''], destinationBucket = websiteBucket\<rparr> of
        Inl e \<Rightarrow> Inl e
      | Inr (_, this) \<Rightarrow>
     (case new_CfnOutput this ''WebsiteURL''
             \<lparr>output_value = bucketWebsiteUrl websiteBucket\<rparr> of
        Inl e \<Rightarrow> Inl e
      | Inr (_, this) \<Rightarrow> Inr this)))"

text \<open>The walkthrough's first listing of the same class (its "Step 3"): the bucket is named
  \<open>WebsiteBucket\<close>, sets \<open>autoDeleteObjects\<close> and has no \<open>blockPublicAccess\<close>.\<close>

definition step3BucketProps :: BucketProps where
  "step3BucketProps =
     \<lparr>websiteIndexDocument = Some ''index.html'',
      publicReadAccess = Some True,
      removalPolicy = Some DESTROY,
      blockPublicAccess = None,
      autoDeleteObjects = Some True\<rparr>"

definition CdkS3WebsiteStack_step3 :: "'s \<Rightarrow> string \<Rightarrow> 'p option \<Rightarrow> error + ('s, 'p) Stack" where
  "CdkS3WebsiteStack_step3 scope id' props =
     (let this = new_Stack scope id' props in
      case new_Bucket this ''WebsiteBucket'' step3BucketProps of
        Inl e \<Rightarrow> Inl e
      | Inr (websiteBucket, this) \<Rightarrow>
     (case new_BucketDeployment this ''DeployWebsite''
             \<lparr>sources = [Source_asset ''./website''], destinationBucket = websiteBucket\<rparr> of
        Inl e \<Rightarrow> Inl e
      | Inr (_, this) \<Rightarrow>
     (case new_CfnOutput this ''WebsiteURL''
             \<lparr>output_value = bucketWebsiteUrl websiteBucket\<rparr> of
        Inl e \<Rightarrow> Inl e
      | Inr (_, this) \<Rightarrow> Inr this)))"

section \<open>The stack over any library\<close>

text \<open>What the four library constructors do is decided outside the repository: whether a
  call is accepted may depend on the scope's children, on the id, on the files under
  \<open>./website\<close>. Here the library is a parameter. Each call receives the object that the
  constructor holds as \<open>this\<close> and answers with an error of the library's own type \<open>'e\<close>, or
  with the reference to the new construct and the changed \<open>this\<close>; \<open>super\<close> answers with an
  error or with the new \<open>this\<close>.\<close>

record ('s, 'p, 'e, 'w) Library =
  cdk_Stack :: "'s \<Rightarrow> string \<Rightarrow> 'p option \<Rightarrow> 'e + 'w"
  s3_Bucket :: "'w \<Rightarrow> string \<Rightarrow> BucketProps \<Rightarrow> 'e + (Ref \<times> 'w)"
  s3Deploy_BucketDeployment :: "'w \<Rightarrow> string \<Rightarrow> BucketDeploymentProps \<Rightarrow> 'e + (Ref \<times> 'w)"
  cdk_CfnOutput :: "'w \<Rightarrow> string \<Rightarrow> CfnOutputProps \<Rightarrow> 'e + (Ref \<times> 'w)"

text \<open>\<open>lib/cdk-s3-website-stack.ts\<close>, the same constructor, statement by statement, over
  such a library. The code has no \<open>try\<close>: a call that throws ends the constructor with the
  error thrown.\<close>

definition CdkS3WebsiteStack_over ::
  "('s, 'p, 'e, 'w) Library \<Rightarrow> 's \<Rightarrow> string \<Rightarrow> 'p option \<Rightarrow> 'e + 'w" where
  "CdkS3WebsiteStack_over lib scope id' props =
     (case cdk_Stack lib scope id' props of
        Inl e \<Rightarrow> Inl e
      | Inr this \<Rightarrow>
     (case s3_Bucket lib this ''SriSriWebsiteBucket'' websiteBucketProps of
        Inl e \<Rightarrow> Inl e
      | Inr (websiteBucket, this) \<Rightarrow>
     (case s3Deploy_BucketDeployment lib this ''DeployWebsite''
             \<lparr>sources = [Source_asset ''./website''], destinationBucket = websiteBucket\<rparr> of
        Inl e \<Rightarrow> Inl e
      | Inr (_, this) \<Rightarrow>
     (case cdk_CfnOutput lib this ''WebsiteURL''
             \<lparr>output_value = bucketWebsiteUrl websiteBucket\<rparr> of
        Inl e \<Rightarrow> Inl e
      | Inr (_, this) \<Rightarrow> Inr this))))"


text \<open>The library of the first section, as one such parameter.\<close>

definition cdk_model :: "('s, 'p, error, ('s, 'p) Stack) Library" where
  "cdk_model =
     \<lparr>cdk_Stack = (\<lambda>scope id' props. Inr (new_Stack scope id' props)),
      s3_Bucket = new_Bucket,
      s3Deploy_BucketDeployment = new_BucketDeployment,
      cdk_CfnOutput = new_CfnOutput\<rparr>"

section \<open>Reading a constructed stack\<close>

text \<open>Every declaration of a stack with the reference under which it is known.\<close>

fun number_from :: "string \<Rightarrow> nat \<Rightarrow> Construct list \<Rightarrow> (Ref \<times> Construct) list" where
  "number_from sid n [] = []"
| "number_from sid n (c # cs) = (Ref sid n, c) # number_from sid (Suc n) cs"

definition declared :: "('s, 'p) Stack \<Rightarrow> (Ref \<times> Construct) list" where
  "declared st = number_from (stack_id st) 0 (children st)"

definition resolve :: "('s, 'p) Stack \<Rightarrow> Ref \<Rightarrow> Construct option" where
  "resolve st r = map_of (declared st) r"

datatype Kind = KBucket | KBucketDeployment | KCfnOutput

fun kind :: "Construct \<Rightarrow> Kind" where
  "kind (Bucket _ _) = KBucket"
| "kind (BucketDeployment _ _) = KBucketDeployment"
| "kind (CfnOutput _ _) = KCfnOutput"

fun construct_id :: "Construct \<Rightarrow> string" where
  "construct_id (Bucket i _) = i"
| "construct_id (BucketDeployment i _) = i"
| "construct_id (CfnOutput i _) = i"

fun bucket_of :: "Ref \<times> Construct \<Rightarrow> (Ref \<times> BucketProps) option" where
  "bucket_of (r, Bucket _ p) = Some (r, p)"
| "bucket_of (r, BucketDeployment _ _) = None"
| "bucket_of (r, CfnOutput _ _) = None"

fun deployment_of :: "Ref \<times> Construct \<Rightarrow> (Ref \<times> BucketDeploymentProps) option" where
  "deployment_of (r, Bucket _ _) = None"
| "deployment_of (r, BucketDeployment _ p) = Some (r, p)"
| "deployment_of (r, CfnOutput _ _) = None"

fun output_of :: "Ref \<times> Construct \<Rightarrow> (string \<times> CfnOutputProps) option" where
  "output_of (r, Bucket _ _) = None"
| "output_of (r, BucketDeployment _ _) = None"
| "output_of (r, CfnOutput i p) = Some (i, p)"

definition buckets :: "('s, 'p) Stack \<Rightarrow> (Ref \<times> BucketProps) list" where
  "buckets st = List.map_filter bucket_of (declared st)"

definition deployments :: "('s, 'p) Stack \<Rightarrow> (Ref \<times> BucketDeploymentProps) list" where
  "deployments st = List.map_filter deployment_of (declared st)"

definition outputs :: "('s, 'p) Stack \<Rightarrow> (string \<times> CfnOutputProps) list" where
  "outputs st = List.map_filter output_of (declared st)"

text \<open>A reference resolves to a bucket of the stack.\<close>

definition resolves_to_bucket :: "('s, 'p) Stack \<Rightarrow> Ref \<Rightarrow> bool" where
  "resolves_to_bucket st r =
     (case resolve st r of Some (Bucket _ _) \<Rightarrow> True | _ \<Rightarrow> False)"

text \<open>The references that a declaration holds to other constructs.\<close>

fun refs_of :: "Construct \<Rightarrow> Ref list" where
  "refs_of (Bucket _ _) = []"
| "refs_of (BucketDeployment _ p) = [destinationBucket p]"
| "refs_of (CfnOutput _ p) = (case output_value p of Literal _ \<Rightarrow> [] | bucketWebsiteUrl r \<Rightarrow> [r])"

text \<open>The members that a bucket's properties object sets, by name.\<close>

definition configured :: "BucketProps \<Rightarrow> string list" where
  "configured p =
     (case websiteIndexDocument p of None \<Rightarrow> [] | Some _ \<Rightarrow> [''websiteIndexDocument'']) @
     (case publicReadAccess p of None \<Rightarrow> [] | Some _ \<Rightarrow> [''publicReadAccess'']) @
     (case removalPolicy p of None \<Rightarrow> [] | Some _ \<Rightarrow> [''removalPolicy'']) @
     (case blockPublicAccess p of None \<Rightarrow> [] | Some _ \<Rightarrow> [''blockPublicAccess'']) @
     (case autoDeleteObjects p of None \<Rightarrow> [] | Some _ \<Rightarrow> [''autoDeleteObjects''])"

text \<open>The access modes through which a bucket with these properties is publicly readable:
  what the library grants and the access-block policy lets through.\<close>

definition public_read_modes :: "BucketProps \<Rightarrow> AccessMode list" where
  "public_read_modes p =
     (case public_read_grant p of
        None \<Rightarrow> []
      | Some m \<Rightarrow> if disallows (blockPublicAccess p) m then [] else [m])"

section \<open>Tearing a stack down\<close>

text \<open>Modelled from the spec: the teardown of a deployed stack is the work of the external
  provisioning service and is missing from the repository's sources. The spec: "Tearing down a stack whose storage
  resource contains uploaded objects succeeds without manual emptying when the auto-cleanup
  setting is enabled, and fails (or requires manual emptying) when it is not." The walkthrough:
  "If the cdk destroy command fails due to non-empty buckets, empty the bucket manually or use
  the autoDeleteObjects property". The objects that each bucket holds are given by its
  reference; a bucket with auto-cleanup is emptied first, and a bucket that still holds an
  object stops the teardown.\<close>

type_synonym Objects = "Ref \<Rightarrow> string list"

datatype teardown_error = BucketNotEmpty Ref

fun destroy_resources :: "(Ref \<times> Construct) list \<Rightarrow> Objects \<Rightarrow> teardown_error + Objects" where
  "destroy_resources [] objs = Inr objs"
| "destroy_resources ((r, Bucket i p) # rest) objs =
     (let objs' = (if autoDeleteObjects p = Some True then objs(r := []) else objs)
      in if objs' r = [] then destroy_resources rest objs' else Inl (BucketNotEmpty r))"
| "destroy_resources ((r, BucketDeployment i p) # rest) objs = destroy_resources rest objs"
| "destroy_resources ((r, CfnOutput i p) # rest) objs = destroy_resources rest objs"

definition cdk_destroy :: "('s, 'p) Stack \<Rightarrow> Objects \<Rightarrow> teardown_error + Objects" where
  "cdk_destroy st objs = destroy_resources (declared st) objs"

text \<open>The manual step of the walkthrough, \<open>aws s3 rm s3://<bucket-name> --recursive\<close>.\<close>

definition empty_manually :: "Ref \<Rightarrow> Objects \<Rightarrow> Objects" where
  "empty_manually r objs = objs(r := [])"

text \<open>Auto-cleanup is enabled for a bucket.\<close>

definition auto_cleanup :: "BucketProps \<Rightarrow> bool" where
  "auto_cleanup p = (autoDeleteObjects p = Some True)"

text \<open>The buckets of a stack that hold objects and have no auto-cleanup.\<close>

definition stuck_buckets :: "('s, 'p) Stack \<Rightarrow> Objects \<Rightarrow> Ref list" where
  "stuck_buckets st objs =
     map fst (filter (\<lambda>(r, p). objs r \<noteq> [] \<and> \<not> auto_cleanup p) (buckets st))"

fun succeeds :: "'e + 'a \<Rightarrow> bool" where
  "succeeds (Inl _) = False"
| "succeeds (Inr _) = True"

section \<open>The stack that the constructor builds\<close>

definition website_children :: "string \<Rightarrow> Construct list" where
  "website_children id' =
     [Bucket ''SriSriWebsiteBucket'' websiteBucketProps,
      BucketDeployment ''DeployWebsite''
        \<lparr>sources = [Source_asset ''./website''], destinationBucket = Ref id' 0\<rparr>,
      CfnOutput ''WebsiteURL'' \<lparr>output_value = bucketWebsiteUrl (Ref id' 0)\<rparr>]"

lemma websiteBucket_consistent: "\<not> inconsistent websiteBucketProps"
  by (simp add: inconsistent_def public_read_grant_def disallows_def websiteBucketProps_def
      BLOCK_ACLS_def)

lemma CdkS3WebsiteStack_result:
  "CdkS3WebsiteStack scope id' props =
     Inr \<lparr>stack_scope = scope, stack_id = id', stack_props = props,
          children = website_children id'\<rparr>"
  by (simp add: CdkS3WebsiteStack_def new_Stack_def new_Bucket_def new_BucketDeployment_def
      new_CfnOutput_def add_child_def websiteBucket_consistent website_children_def)

lemma declared_website:
  "declared \<lparr>stack_scope = scope, stack_id = id', stack_props = props,
             children = website_children id'\<rparr> =
     [(Ref id' 0, Bucket ''SriSriWebsiteBucket'' websiteBucketProps),
      (Ref id' 1, BucketDeployment ''DeployWebsite''
         \<lparr>sources = [Source_asset ''./website''], destinationBucket = Ref id' 0\<rparr>),
      (Ref id' 2, CfnOutput ''WebsiteURL'' \<lparr>output_value = bucketWebsiteUrl (Ref id' 0)\<rparr>)]"
  by (simp add: declared_def website_children_def numeral_2_eq_2)

lemma buckets_website:
  "buckets \<lparr>stack_scope = scope, stack_id = id', stack_props = props,
            children = website_children id'\<rparr> = [(Ref id' 0, websiteBucketProps)]"
  by (simp add: buckets_def declared_website)

lemma deployments_website:
  "deployments \<lparr>stack_scope = scope, stack_id = id', stack_props = props,
                children = website_children id'\<rparr> =
     [(Ref id' 1, \<lparr>sources = [Source_asset ''./website''], destinationBucket = Ref id' 0\<rparr>)]"
  by (simp add: deployments_def declared_website)

lemma outputs_website:
  "outputs \<lparr>stack_scope = scope, stack_id = id', stack_props = props,
            children = website_children id'\<rparr> =
     [(''WebsiteURL'', \<lparr>output_value = bucketWebsiteUrl (Ref id' 0)\<rparr>)]"
  by (simp add: outputs_def declared_website)

lemma website_facts:
  "\<exists>st. CdkS3WebsiteStack scope id' props = Inr st
     \<and> stack_id st = id'
     \<and> children st = website_children id'
     \<and> declared st =
         [(Ref id' 0, Bucket ''SriSriWebsiteBucket'' websiteBucketProps),
          (Ref id' 1, BucketDeployment ''DeployWebsite''
             \<lparr>sources = [Source_asset ''./website''], destinationBucket = Ref id' 0\<rparr>),
          (Ref id' 2, CfnOutput ''WebsiteURL'' \<lparr>output_value = bucketWebsiteUrl (Ref id' 0)\<rparr>)]
     \<and> buckets st = [(Ref id' 0, websiteBucketProps)]
     \<and> deployments st =
         [(Ref id' 1, \<lparr>sources = [Source_asset ''./website''], destinationBucket = Ref id' 0\<rparr>)]
     \<and> outputs st = [(''WebsiteURL'', \<lparr>output_value = bucketWebsiteUrl (Ref id' 0)\<rparr>)]"
  by (simp add: CdkS3WebsiteStack_result declared_website buckets_website deployments_website
      outputs_website)

lemma step3_inconsistent: "inconsistent step3BucketProps"
  by (simp add: inconsistent_def public_read_grant_def disallows_def step3BucketProps_def)


subsection \<open>Teardown, for any stack\<close>

lemma number_from_slot: "(r, c) \<in> set (number_from sid n cs) \<Longrightarrow> n \<le> slot r"
proof (induction cs arbitrary: n)
  case Nil
  then show ?case by simp
next
  case (Cons a cs)
  from Cons.prems have "r = Ref sid n \<or> (r, c) \<in> set (number_from sid (Suc n) cs)"
    by auto
  then show ?case
  proof
    assume "r = Ref sid n"
    then show ?thesis by simp
  next
    assume "(r, c) \<in> set (number_from sid (Suc n) cs)"
    then have "Suc n \<le> slot r" by (rule Cons.IH)
    then show ?thesis by simp
  qed
qed

lemma number_from_distinct: "distinct (map fst (number_from sid n cs))"
proof (induction cs arbitrary: n)
  case Nil
  show ?case by simp
next
  case (Cons a cs)
  have "Ref sid n \<notin> fst ` set (number_from sid (Suc n) cs)"
  proof
    assume "Ref sid n \<in> fst ` set (number_from sid (Suc n) cs)"
    then obtain c where "(Ref sid n, c) \<in> set (number_from sid (Suc n) cs)"
      by force
    then have "Suc n \<le> slot (Ref sid n)" by (rule number_from_slot)
    then show False by simp
  qed
  with Cons.IH [of "Suc n"] show ?case by simp
qed

lemma bucket_of_fst: "(r, p) \<in> set (List.map_filter bucket_of xs) \<Longrightarrow> r \<in> fst ` set xs"
proof (induction xs)
  case Nil
  then show ?case by (simp add: List.map_filter_simps)
next
  case (Cons x xs)
  obtain r' c where x: "x = (r', c)" by (cases x)
  show ?case
  proof (cases c)
    case (Bucket i q)
    with Cons x show ?thesis by (auto simp: List.map_filter_simps)
  next
    case (BucketDeployment i q)
    with Cons x show ?thesis by (auto simp: List.map_filter_simps)
  next
    case (CfnOutput i q)
    with Cons x show ?thesis by (auto simp: List.map_filter_simps)
  qed
qed

lemma destroy_resources_succeeds:
  "distinct (map fst xs) \<Longrightarrow>
   succeeds (destroy_resources xs objs) \<longleftrightarrow>
     (\<forall>(r, p) \<in> set (List.map_filter bucket_of xs). objs r \<noteq> [] \<longrightarrow> auto_cleanup p)"
proof (induction xs arbitrary: objs)
  case Nil
  show ?case by (simp add: List.map_filter_simps)
next
  case (Cons x xs)
  obtain r c where x: "x = (r, c)" by (cases x)
  from Cons.prems x have fresh: "r \<notin> fst ` set xs" and dist: "distinct (map fst xs)"
    by simp_all
  have IH: "succeeds (destroy_resources xs o') \<longleftrightarrow>
      (\<forall>(r, p) \<in> set (List.map_filter bucket_of xs). o' r \<noteq> [] \<longrightarrow> auto_cleanup p)" for o'
    using Cons.IH [OF dist] .
  show ?case
  proof (cases c)
    case (Bucket i q)
    have rest: "(\<forall>(r', p) \<in> set (List.map_filter bucket_of xs).
                    (objs(r := [])) r' \<noteq> [] \<longrightarrow> auto_cleanup p) \<longleftrightarrow>
                (\<forall>(r', p) \<in> set (List.map_filter bucket_of xs).
                    objs r' \<noteq> [] \<longrightarrow> auto_cleanup p)"
    proof -
      have "r' \<noteq> r" if "(r', p) \<in> set (List.map_filter bucket_of xs)" for r' p
        using bucket_of_fst [OF that] fresh by auto
      then show ?thesis by (auto simp: fun_upd_apply)
    qed
    show ?thesis
    proof (cases "autoDeleteObjects q = Some True")
      case True
      with x Bucket IH [of "objs(r := [])"] rest show ?thesis
        by (simp add: List.map_filter_simps auto_cleanup_def)
    next
      case False
      with x Bucket IH [of objs] show ?thesis
        by (auto simp: List.map_filter_simps auto_cleanup_def)
    qed
  next
    case (BucketDeployment i q)
    with x IH [of objs] show ?thesis by (simp add: List.map_filter_simps)
  next
    case (CfnOutput i q)
    with x IH [of objs] show ?thesis by (simp add: List.map_filter_simps)
  qed
qed

lemma cdk_destroy_succeeds:
  "succeeds (cdk_destroy st objs) \<longleftrightarrow>
     (\<forall>(r, p) \<in> set (buckets st). objs r \<noteq> [] \<longrightarrow> auto_cleanup p)"
  unfolding cdk_destroy_def buckets_def declared_def
  by (rule destroy_resources_succeeds) (rule number_from_distinct)

lemma fold_empty_manually:
  "fold empty_manually rs objs r = (if r \<in> set rs then [] else objs r)"
  by (induction rs arbitrary: objs) (auto simp: empty_manually_def)

lemma cdk_destroy_after_emptying:
  "succeeds (cdk_destroy st (fold empty_manually (stuck_buckets st objs) objs))"
proof -
  have "auto_cleanup p"
    if "(r, p) \<in> set (buckets st)"
      and "fold empty_manually (stuck_buckets st objs) objs r \<noteq> []" for r p
  proof (rule ccontr)
    assume "\<not> auto_cleanup p"
    from that(2) have out: "r \<notin> set (stuck_buckets st objs)" and full: "objs r \<noteq> []"
      by (simp_all add: fold_empty_manually split: if_splits)
    from that(1) full \<open>\<not> auto_cleanup p\<close> have "r \<in> set (stuck_buckets st objs)"
      by (force simp: stuck_buckets_def)
    with out show False ..
  qed
  then show ?thesis by (auto simp: cdk_destroy_succeeds)
qed

section \<open>The claims\<close>

text \<open>C1. Where a bucket's configuration requests public read, its access-block policy must
  not block the access mode being granted; a bucket whose two settings are inconsistent is
  rejected by the configuration validation, and so is the stack that declares it (the
  walkthrough's first listing is rejected). The authored stack pairs
  \<open>publicReadAccess: true\<close> with \<open>BLOCK_ACLS\<close>: every bucket it declares is consistent and
  its synthesis does not fail.\<close>

theorem public_read_consistent_or_rejected:
  "(public_read_grant p = Some m \<and> disallows (blockPublicAccess p) m
      \<longrightarrow> new_Bucket this bid p = Inl ConfigurationValidation)
   \<and> CdkS3WebsiteStack_step3 scope id' props = Inl ConfigurationValidation
   \<and> (\<exists>st. CdkS3WebsiteStack scope id' props = Inr st
        \<and> buckets st \<noteq> []
        \<and> (\<forall>(r, bp) \<in> set (buckets st).
              publicReadAccess bp = Some True
              \<and> blockPublicAccess bp = Some BLOCK_ACLS
              \<and> public_read_grant bp = Some ViaBucketPolicy
              \<and> \<not> disallows (blockPublicAccess bp) ViaBucketPolicy
              \<and> \<not> inconsistent bp))"
proof (intro conjI)
  show "public_read_grant p = Some m \<and> disallows (blockPublicAccess p) m
      \<longrightarrow> new_Bucket this bid p = Inl ConfigurationValidation"
    by (simp add: new_Bucket_def inconsistent_def)
  show "CdkS3WebsiteStack_step3 scope id' props = Inl ConfigurationValidation"
    by (simp add: CdkS3WebsiteStack_step3_def new_Bucket_def step3_inconsistent)
  have "publicReadAccess websiteBucketProps = Some True"
    and "blockPublicAccess websiteBucketProps = Some BLOCK_ACLS"
    and "public_read_grant websiteBucketProps = Some ViaBucketPolicy"
    and "\<not> disallows (blockPublicAccess websiteBucketProps) ViaBucketPolicy"
    by (simp_all add: websiteBucketProps_def public_read_grant_def disallows_def BLOCK_ACLS_def)
  with website_facts [of scope id' props] websiteBucket_consistent
  show "\<exists>st. CdkS3WebsiteStack scope id' props = Inr st
        \<and> buckets st \<noteq> []
        \<and> (\<forall>(r, bp) \<in> set (buckets st).
              publicReadAccess bp = Some True
              \<and> blockPublicAccess bp = Some BLOCK_ACLS
              \<and> public_read_grant bp = Some ViaBucketPolicy
              \<and> \<not> disallows (blockPublicAccess bp) ViaBucketPolicy
              \<and> \<not> inconsistent bp)"
    by auto
qed

theorem public_read_consistent_or_rejected_witness:
  "public_read_grant step3BucketProps = Some ViaBucketPolicy
   \<and> disallows (blockPublicAccess step3BucketProps) ViaBucketPolicy
   \<and> new_Bucket (new_Stack () ''CdkS3WebsiteStack'' (None :: unit option))
        ''WebsiteBucket'' step3BucketProps = Inl ConfigurationValidation
   \<and> CdkS3WebsiteStack_step3 () ''CdkS3WebsiteStack'' (None :: unit option)
        = Inl ConfigurationValidation
   \<and> succeeds (CdkS3WebsiteStack () ''CdkS3WebsiteStack'' (None :: unit option))"
proof -
  have g: "public_read_grant step3BucketProps = Some ViaBucketPolicy"
    by (simp add: public_read_grant_def step3BucketProps_def)
  have d: "disallows (blockPublicAccess step3BucketProps) ViaBucketPolicy"
    by (simp add: disallows_def step3BucketProps_def)
  from g d
    public_read_consistent_or_rejected
      [where p = step3BucketProps and m = ViaBucketPolicy
         and this = "new_Stack () ''CdkS3WebsiteStack'' (None :: unit option)"
         and bid = "''WebsiteBucket''" and scope = "()" and id' = "''CdkS3WebsiteStack''"
         and props = "None :: unit option"]
  show ?thesis by auto
qed

text \<open>C2. Tearing down a stack whose buckets hold uploaded objects succeeds without manual
  emptying exactly when every such bucket has auto-cleanup enabled; otherwise it fails, and
  succeeds once the buckets without auto-cleanup have been emptied by hand. The authored
  stack's bucket has removal policy \<open>DESTROY\<close> and leaves the auto-cleanup setting out, so
  its teardown succeeds exactly when the bucket holds no object; a bucket with the first
  listing's properties, which enable auto-cleanup, never stops a teardown.\<close>

theorem teardown_needs_auto_cleanup:
  "(succeeds (cdk_destroy st objs) \<longleftrightarrow>
      (\<forall>(r, p) \<in> set (buckets st). objs r \<noteq> [] \<longrightarrow> auto_cleanup p))
   \<and> succeeds (cdk_destroy st (fold empty_manually (stuck_buckets st objs) objs))
   \<and> (\<exists>w b bp. CdkS3WebsiteStack scope id' props = Inr w
        \<and> buckets w = [(b, bp)]
        \<and> removalPolicy bp = Some DESTROY
        \<and> autoDeleteObjects bp = None
        \<and> (succeeds (cdk_destroy w objs') \<longleftrightarrow> objs' b = [])
        \<and> succeeds (cdk_destroy w (empty_manually b objs')))
   \<and> auto_cleanup step3BucketProps
   \<and> succeeds (destroy_resources [(r0, Bucket ''WebsiteBucket'' step3BucketProps)] objs')"
proof (intro conjI)
  show "succeeds (cdk_destroy st objs) \<longleftrightarrow>
      (\<forall>(r, p) \<in> set (buckets st). objs r \<noteq> [] \<longrightarrow> auto_cleanup p)"
    by (rule cdk_destroy_succeeds)
  show "succeeds (cdk_destroy st (fold empty_manually (stuck_buckets st objs) objs))"
    by (rule cdk_destroy_after_emptying)
  show "auto_cleanup step3BucketProps"
    by (simp add: auto_cleanup_def step3BucketProps_def)
  show "succeeds (destroy_resources [(r0, Bucket ''WebsiteBucket'' step3BucketProps)] objs')"
    by (simp add: step3BucketProps_def)
  obtain w where w: "CdkS3WebsiteStack scope id' props = Inr w"
    and b: "buckets w = [(Ref id' 0, websiteBucketProps)]"
    using website_facts [of scope id' props] by blast
  have "succeeds (cdk_destroy w objs') \<longleftrightarrow> objs' (Ref id' 0) = []"
    by (simp add: cdk_destroy_succeeds b auto_cleanup_def websiteBucketProps_def)
  moreover have "succeeds (cdk_destroy w (empty_manually (Ref id' 0) objs'))"
    by (simp add: cdk_destroy_succeeds b empty_manually_def)
  moreover have "removalPolicy websiteBucketProps = Some DESTROY"
    and "autoDeleteObjects websiteBucketProps = None"
    by (simp_all add: websiteBucketProps_def)
  ultimately
  show "\<exists>w b bp. CdkS3WebsiteStack scope id' props = Inr w
        \<and> buckets w = [(b, bp)]
        \<and> removalPolicy bp = Some DESTROY
        \<and> autoDeleteObjects bp = None
        \<and> (succeeds (cdk_destroy w objs') \<longleftrightarrow> objs' b = [])
        \<and> succeeds (cdk_destroy w (empty_manually b objs'))"
    using w b by blast
qed

theorem teardown_needs_auto_cleanup_witness:
  "buckets \<lparr>stack_scope = (), stack_id = ''CdkS3WebsiteStack'', stack_props = None :: unit option,
            children = website_children ''CdkS3WebsiteStack''\<rparr>
     = [(Ref ''CdkS3WebsiteStack'' 0, websiteBucketProps)]
   \<and> \<not> auto_cleanup websiteBucketProps
   \<and> \<not> succeeds (cdk_destroy
         \<lparr>stack_scope = (), stack_id = ''CdkS3WebsiteStack'', stack_props = None :: unit option,
          children = website_children ''CdkS3WebsiteStack''\<rparr>
         ((\<lambda>_. [])(Ref ''CdkS3WebsiteStack'' 0 := [''index.html''])))"
proof -
  let ?W = "\<lparr>stack_scope = (), stack_id = ''CdkS3WebsiteStack'', stack_props = None :: unit option,
             children = website_children ''CdkS3WebsiteStack''\<rparr>"
  let ?objs = "(\<lambda>_. [])(Ref ''CdkS3WebsiteStack'' 0 := [''index.html''])"
  have b: "buckets ?W = [(Ref ''CdkS3WebsiteStack'' 0, websiteBucketProps)]"
    by (rule buckets_website)
  have n: "\<not> auto_cleanup websiteBucketProps"
    by (simp add: auto_cleanup_def websiteBucketProps_def)
  from teardown_needs_auto_cleanup [where st = ?W and objs = ?objs]
  have "succeeds (cdk_destroy ?W ?objs) \<longleftrightarrow>
      (\<forall>(r, p) \<in> set (buckets ?W). ?objs r \<noteq> [] \<longrightarrow> auto_cleanup p)"
    by (rule conjunct1)
  with b n show ?thesis by simp
qed

text \<open>C3. Every deployment declared by the stack has a destination that resolves to a bucket
  declared in the same stack. The authored stack has a single deployment, and its
  destination is the bucket declared before it in the same constructor.\<close>

theorem deployment_destination_in_stack:
  "CdkS3WebsiteStack scope id' props = Inr st \<Longrightarrow>
     (\<forall>(r, d) \<in> set (deployments st).
         owner (destinationBucket d) = stack_id st
         \<and> resolves_to_bucket st (destinationBucket d))
     \<and> (\<exists>r d b. deployments st = [(r, d)]
          \<and> buckets st = [(b, websiteBucketProps)]
          \<and> destinationBucket d = b
          \<and> slot b < slot r
          \<and> resolve st b = Some (Bucket ''SriSriWebsiteBucket'' websiteBucketProps))"
proof -
  assume run: "CdkS3WebsiteStack scope id' props = Inr st"
  from website_facts [of scope id' props] run
  have sid: "stack_id st = id'"
    and decl: "declared st =
         [(Ref id' 0, Bucket ''SriSriWebsiteBucket'' websiteBucketProps),
          (Ref id' 1, BucketDeployment ''DeployWebsite''
             \<lparr>sources = [Source_asset ''./website''], destinationBucket = Ref id' 0\<rparr>),
          (Ref id' 2, CfnOutput ''WebsiteURL'' \<lparr>output_value = bucketWebsiteUrl (Ref id' 0)\<rparr>)]"
    and bs: "buckets st = [(Ref id' 0, websiteBucketProps)]"
    and ds: "deployments st =
         [(Ref id' 1, \<lparr>sources = [Source_asset ''./website''], destinationBucket = Ref id' 0\<rparr>)]"
    by auto
  have res: "resolve st (Ref id' 0) = Some (Bucket ''SriSriWebsiteBucket'' websiteBucketProps)"
    by (simp add: resolve_def decl)
  then have "resolves_to_bucket st (Ref id' 0)"
    by (simp add: resolves_to_bucket_def)
  with sid bs ds res show ?thesis by simp
qed

theorem deployment_destination_in_stack_witness:
  "CdkS3WebsiteStack () ''CdkS3WebsiteStack'' (None :: unit option) =
     Inr \<lparr>stack_scope = (), stack_id = ''CdkS3WebsiteStack'', stack_props = None,
          children = website_children ''CdkS3WebsiteStack''\<rparr>
   \<and> map (destinationBucket \<circ> snd)
       (deployments \<lparr>stack_scope = (), stack_id = ''CdkS3WebsiteStack'',
                     stack_props = None :: unit option,
                     children = website_children ''CdkS3WebsiteStack''\<rparr>)
     = [Ref ''CdkS3WebsiteStack'' 0]
   \<and> resolves_to_bucket \<lparr>stack_scope = (), stack_id = ''CdkS3WebsiteStack'',
                          stack_props = None :: unit option,
                          children = website_children ''CdkS3WebsiteStack''\<rparr>
       (Ref ''CdkS3WebsiteStack'' 0)"
proof -
  have run: "CdkS3WebsiteStack () ''CdkS3WebsiteStack'' (None :: unit option) =
     Inr \<lparr>stack_scope = (), stack_id = ''CdkS3WebsiteStack'', stack_props = None,
          children = website_children ''CdkS3WebsiteStack''\<rparr>"
    by (rule CdkS3WebsiteStack_result)
  from run deployment_destination_in_stack [OF run] show ?thesis
    by (simp add: deployments_website)
qed



text \<open>C5. The stack declares exactly one output. Its value is not a string written in the
  code but the website-URL attribute of the one bucket that the stack declares.\<close>

theorem single_output_is_bucket_url:
  "\<exists>st b bp. CdkS3WebsiteStack scope id' props = Inr st
     \<and> buckets st = [(b, bp)]
     \<and> outputs st = [(''WebsiteURL'', \<lparr>output_value = bucketWebsiteUrl b\<rparr>)]
     \<and> length (outputs st) = 1"
  using website_facts [of scope id' props] by auto

text \<open>C6. The stack holds exactly three declarations: one bucket, one deployment from the
  asset directory to that bucket, and one output, the bucket's website URL.\<close>

theorem exactly_three_declarations:
  "\<exists>st b bp r d out. CdkS3WebsiteStack scope id' props = Inr st
     \<and> length (children st) = 3
     \<and> map kind (children st) = [KBucket, KBucketDeployment, KCfnOutput]
     \<and> buckets st = [(b, bp)]
     \<and> deployments st = [(r, d)]
     \<and> outputs st = [out]
     \<and> sources d = [Source_asset ''./website'']
     \<and> destinationBucket d = b
     \<and> snd out = \<lparr>output_value = bucketWebsiteUrl b\<rparr>"
  using website_facts [of scope id' props] by (auto simp: website_children_def)

text \<open>C7. The bucket's configuration sets exactly four members: the index document
  \<open>index.html\<close>, public read \<open>true\<close>, the removal policy \<open>DESTROY\<close> and the access-block
  policy \<open>BLOCK_ACLS\<close>.\<close>

theorem bucket_configuration_fields:
  "\<exists>st b bp. CdkS3WebsiteStack scope id' props = Inr st
     \<and> buckets st = [(b, bp)]
     \<and> configured bp =
         [''websiteIndexDocument'', ''publicReadAccess'', ''removalPolicy'', ''blockPublicAccess'']
     \<and> websiteIndexDocument bp = Some ''index.html''
     \<and> publicReadAccess bp = Some True
     \<and> blockPublicAccess bp = Some BLOCK_ACLS
     \<and> removalPolicy bp = Some DESTROY
     \<and> autoDeleteObjects bp = None"
  using website_facts [of scope id' props]
  by (auto simp: websiteBucketProps_def configured_def)

text \<open>C8. The constructor is straight-line and raises no error of its own. Whatever the
  library does, on every scope, id and props: the constructor returns a stack exactly when
  \<open>super\<close> and the three declarations (the bucket, the deployment, the output, in this
  order, with the same ids and properties) are all accepted, and it ends with an error exactly
  when one of these calls, the earlier ones having been accepted, throws that very error.\<close>

theorem constructor_total_straight_line:
  "(CdkS3WebsiteStack_over lib scope id' props = Inr w \<longleftrightarrow>
      (\<exists>this websiteBucket this1 r1 this2 r2.
          cdk_Stack lib scope id' props = Inr this
        \<and> s3_Bucket lib this ''SriSriWebsiteBucket'' websiteBucketProps
            = Inr (websiteBucket, this1)
        \<and> s3Deploy_BucketDeployment lib this1 ''DeployWebsite''
              \<lparr>sources = [Source_asset ''./website''], destinationBucket = websiteBucket\<rparr>
            = Inr (r1, this2)
        \<and> cdk_CfnOutput lib this2 ''WebsiteURL''
              \<lparr>output_value = bucketWebsiteUrl websiteBucket\<rparr>
            = Inr (r2, w)))
   \<and> (CdkS3WebsiteStack_over lib scope id' props = Inl e \<longleftrightarrow>
        cdk_Stack lib scope id' props = Inl e
      \<or> (\<exists>this. cdk_Stack lib scope id' props = Inr this
           \<and> s3_Bucket lib this ''SriSriWebsiteBucket'' websiteBucketProps = Inl e)
      \<or> (\<exists>this websiteBucket this1.
             cdk_Stack lib scope id' props = Inr this
           \<and> s3_Bucket lib this ''SriSriWebsiteBucket'' websiteBucketProps
               = Inr (websiteBucket, this1)
           \<and> s3Deploy_BucketDeployment lib this1 ''DeployWebsite''
                 \<lparr>sources = [Source_asset ''./website''], destinationBucket = websiteBucket\<rparr>
               = Inl e)
      \<or> (\<exists>this websiteBucket this1 r1 this2.
             cdk_Stack lib scope id' props = Inr this
           \<and> s3_Bucket lib this ''SriSriWebsiteBucket'' websiteBucketProps
               = Inr (websiteBucket, this1)
           \<and> s3Deploy_BucketDeployment lib this1 ''DeployWebsite''
                 \<lparr>sources = [Source_asset ''./website''], destinationBucket = websiteBucket\<rparr>
               = Inr (r1, this2)
           \<and> cdk_CfnOutput lib this2 ''WebsiteURL''
                 \<lparr>output_value = bucketWebsiteUrl websiteBucket\<rparr>
               = Inl e))"
  unfolding CdkS3WebsiteStack_over_def
  by (auto split: sum.splits prod.splits)

theorem constructor_total_straight_line_witness:
  "CdkS3WebsiteStack_over cdk_model () ''CdkS3WebsiteStack'' (None :: unit option)
     = Inr \<lparr>stack_scope = (), stack_id = ''CdkS3WebsiteStack'', stack_props = None,
            children = website_children ''CdkS3WebsiteStack''\<rparr>
   \<and> CdkS3WebsiteStack_over
       \<lparr>cdk_Stack = (\<lambda>scope id' props. Inr (new_Stack scope id' props)),
        s3_Bucket = (\<lambda>this i p. Inr (add_child this (Bucket i p))),
        s3Deploy_BucketDeployment = (\<lambda>this i p. Inl ''asset directory not found''),
        cdk_CfnOutput = (\<lambda>this i p. Inr (add_child this (CfnOutput i p)))\<rparr>
       () ''CdkS3WebsiteStack'' (None :: unit option)
     = Inl ''asset directory not found''
   \<and> CdkS3WebsiteStack_over
       \<lparr>cdk_Stack = (\<lambda>scope id' props.
           if id' = [] then Inl ''empty id'' else Inr (new_Stack scope id' props)),
        s3_Bucket = (\<lambda>this i p. Inr (add_child this (Bucket i p))),
        s3Deploy_BucketDeployment = (\<lambda>this i p. Inr (add_child this (BucketDeployment i p))),
        cdk_CfnOutput = (\<lambda>this i p. Inr (add_child this (CfnOutput i p)))\<rparr>
       () [] (None :: unit option)
     = Inl ''empty id''"
proof (intro conjI)
  let ?W = "\<lparr>stack_scope = (), stack_id = ''CdkS3WebsiteStack'', stack_props = None :: unit option,
             children = website_children ''CdkS3WebsiteStack''\<rparr>"
  show "CdkS3WebsiteStack_over cdk_model () ''CdkS3WebsiteStack'' (None :: unit option) = Inr ?W"
    using constructor_total_straight_line
      [where lib = "cdk_model :: (unit, unit, error, (unit, unit) Stack) Library"
         and scope = "()" and id' = "''CdkS3WebsiteStack''" and props = None and w = ?W]
    by (simp add: cdk_model_def new_Stack_def new_Bucket_def new_BucketDeployment_def
        new_CfnOutput_def add_child_def websiteBucket_consistent website_children_def)
next
  let ?lib = "\<lparr>cdk_Stack = (\<lambda>scope id' props. Inr (new_Stack scope id' props)),
        s3_Bucket = (\<lambda>this i p. Inr (add_child this (Bucket i p))),
        s3Deploy_BucketDeployment = (\<lambda>this i p. Inl ''asset directory not found''),
        cdk_CfnOutput = (\<lambda>this i p. Inr (add_child this (CfnOutput i p)))\<rparr>
      :: (unit, unit, string, (unit, unit) Stack) Library"
  show "CdkS3WebsiteStack_over ?lib () ''CdkS3WebsiteStack'' (None :: unit option)
      = Inl ''asset directory not found''"
    using constructor_total_straight_line
      [where lib = ?lib and scope = "()" and id' = "''CdkS3WebsiteStack''" and props = None
         and e = "''asset directory not found''"]
    by simp
next
  let ?lib = "\<lparr>cdk_Stack = (\<lambda>scope id' props.
           if id' = [] then Inl ''empty id'' else Inr (new_Stack scope id' props)),
        s3_Bucket = (\<lambda>this i p. Inr (add_child this (Bucket i p))),
        s3Deploy_BucketDeployment = (\<lambda>this i p. Inr (add_child this (BucketDeployment i p))),
        cdk_CfnOutput = (\<lambda>this i p. Inr (add_child this (CfnOutput i p)))\<rparr>
      :: (unit, unit, string, (unit, unit) Stack) Library"
  show "CdkS3WebsiteStack_over ?lib () [] (None :: unit option) = Inl ''empty id''"
    using constructor_total_straight_line
      [where lib = ?lib and scope = "()" and id' = "[]" and props = None
         and e = "''empty id''"]
    by simp
qed

text \<open>C9. The access-block policy of the stack's bucket is \<open>BLOCK_ACLS\<close>: it blocks public
  access through ACLs and not through the bucket policy, and the public read that the bucket
  grants is conferred through the bucket policy only.\<close>

theorem bucket_blocks_acls_only:
  "\<exists>st b bp. CdkS3WebsiteStack scope id' props = Inr st
     \<and> buckets st = [(b, bp)]
     \<and> blockPublicAccess bp = Some BLOCK_ACLS
     \<and> disallows (blockPublicAccess bp) ViaAcl
     \<and> \<not> disallows (blockPublicAccess bp) ViaBucketPolicy
     \<and> public_read_grant bp = Some ViaBucketPolicy
     \<and> public_read_modes bp = [ViaBucketPolicy]"
proof -
  obtain st where run: "CdkS3WebsiteStack scope id' props = Inr st"
    and bs: "buckets st = [(Ref id' 0, websiteBucketProps)]"
    using website_facts [of scope id' props] by blast
  have "blockPublicAccess websiteBucketProps = Some BLOCK_ACLS"
    by (simp add: websiteBucketProps_def)
  moreover have "disallows (Some BLOCK_ACLS) ViaAcl"
    and "\<not> disallows (Some BLOCK_ACLS) ViaBucketPolicy"
    by (simp_all add: disallows_def BLOCK_ACLS_def)
  moreover have "public_read_grant websiteBucketProps = Some ViaBucketPolicy"
    by (simp add: public_read_grant_def websiteBucketProps_def)
  ultimately show ?thesis using run bs
    by (simp add: public_read_modes_def)
qed

text \<open>C10. The deployment's destination, the bucket whose website URL the output exports and
  the single bucket that the stack declares are one and the same: every reference held by a
  declaration resolves to it. The deployment has one source, the asset directory
  \<open>./website\<close>.\<close>

theorem one_bucket_everywhere:
  "\<exists>st b bp r d. CdkS3WebsiteStack scope id' props = Inr st
     \<and> buckets st = [(b, bp)]
     \<and> deployments st = [(r, d)]
     \<and> destinationBucket d = b
     \<and> sources d = [Source_asset ''./website'']
     \<and> map snd (outputs st) = [\<lparr>output_value = bucketWebsiteUrl b\<rparr>]
     \<and> concat (map refs_of (children st)) = [b, b]
     \<and> resolves_to_bucket st b"
proof -
  obtain st where run: "CdkS3WebsiteStack scope id' props = Inr st"
    and ch: "children st = website_children id'"
    and decl: "declared st =
         [(Ref id' 0, Bucket ''SriSriWebsiteBucket'' websiteBucketProps),
          (Ref id' 1, BucketDeployment ''DeployWebsite''
             \<lparr>sources = [Source_asset ''./website''], destinationBucket = Ref id' 0\<rparr>),
          (Ref id' 2, CfnOutput ''WebsiteURL'' \<lparr>output_value = bucketWebsiteUrl (Ref id' 0)\<rparr>)]"
    and bs: "buckets st = [(Ref id' 0, websiteBucketProps)]"
    and ds: "deployments st =
         [(Ref id' 1, \<lparr>sources = [Source_asset ''./website''], destinationBucket = Ref id' 0\<rparr>)]"
    and os: "outputs st = [(''WebsiteURL'', \<lparr>output_value = bucketWebsiteUrl (Ref id' 0)\<rparr>)]"
    using website_facts [of scope id' props] by blast
  have "resolves_to_bucket st (Ref id' 0)"
    by (simp add: resolves_to_bucket_def resolve_def decl)
  moreover have "concat (map refs_of (children st)) = [Ref id' 0, Ref id' 0]"
    by (simp add: ch website_children_def)
  ultimately show ?thesis using run bs ds os by simp
qed

end
